theory Spec2Isabelle
  imports Complex_Main "HOL-Library.AList"
begin

section \<open>JSON values and the JavaScript built-ins the cache relies on\<close>

text \<open>
  The cache stores text. Values handed to the cache are JavaScript values that
  \<^verbatim>\<open>JSON.stringify\<close> can serialise; they are modelled by the datatype \<open>json\<close>.
  Strings are byte strings (the UTF-8 encoding of the JavaScript string), numbers are
  the integers a double holds exactly, and an object is the list of its members in
  enumeration order. \<open>JSON_stringify\<close> and \<open>JSON_parse\<close> model the two built-ins
  on this fragment: the serialiser emits no white space and escapes the quote, the
  backslash and the control characters; the parser accepts white space between tokens,
  the short escapes and the four-digit unicode escapes of ASCII characters. Number literals
  with a fraction or an exponent, and unicode escapes beyond ASCII, are outside
  the fragment and are rejected by \<open>JSON_parse\<close>. The parser recurses on a fuel
  argument that \<open>JSON_parse\<close> sets to the length of the input, which bounds the
  number of values in it.
\<close>

datatype json =
    JNull
  | JBool bool
  | JNum int
  | JStr string
  | JArr "json list"
  | JObj "(string \<times> json) list"

definition digit_char :: "nat \<Rightarrow> char" where
  "digit_char d = char_of (48 + d)"

fun digits :: "nat \<Rightarrow> string" where
  "digits n = (if n < 10 then [digit_char n] else digits (n div 10) @ [digit_char (n mod 10)])"

declare digits.simps [simp del]

definition show_int :: "int \<Rightarrow> string" where
  "show_int i = (if i < 0 then CHR ''-'' # digits (nat (- i)) else digits (nat i))"

definition hex_lower :: "nat \<Rightarrow> char" where
  "hex_lower d = (if d < 10 then char_of (48 + d) else char_of (87 + d))"

definition hex_upper :: "nat \<Rightarrow> char" where
  "hex_upper d = (if d < 10 then char_of (48 + d) else char_of (55 + d))"

definition hex_value :: "char \<Rightarrow> nat option" where
  "hex_value c =
     (let n = (of_char c :: nat) in
      if 48 \<le> n \<and> n \<le> 57 then Some (n - 48)
      else if 97 \<le> n \<and> n \<le> 102 then Some (n - 87)
      else if 65 \<le> n \<and> n \<le> 70 then Some (n - 55)
      else None)"

definition escape_char :: "char \<Rightarrow> string" where
  "escape_char c =
     (if c = CHR 0x22 then [CHR 0x5C, CHR 0x22]
      else if c = CHR 0x5C then [CHR 0x5C, CHR 0x5C]
      else if c = CHR 0x08 then [CHR 0x5C, CHR ''b'']
      else if c = CHR 0x0C then [CHR 0x5C, CHR ''f'']
      else if c = CHR 0x0A then [CHR 0x5C, CHR ''n'']
      else if c = CHR 0x0D then [CHR 0x5C, CHR ''r'']
      else if c = CHR 0x09 then [CHR 0x5C, CHR ''t'']
      else if (of_char c :: nat) < 0x20 then
        [CHR 0x5C, CHR ''u'', CHR ''0'', CHR ''0'',
         hex_lower ((of_char c :: nat) div 16), hex_lower ((of_char c :: nat) mod 16)]
      else [c])"

definition quote :: "string \<Rightarrow> string" where
  "quote s = CHR 0x22 # concat (map escape_char s) @ [CHR 0x22]"

fun JSON_stringify :: "json \<Rightarrow> string"
  and stringify_elements :: "json list \<Rightarrow> string"
  and stringify_members :: "(string \<times> json) list \<Rightarrow> string"
where
  "JSON_stringify JNull = ''null''"
| "JSON_stringify (JBool b) = (if b then ''true'' else ''false'')"
| "JSON_stringify (JNum i) = show_int i"
| "JSON_stringify (JStr s) = quote s"
| "JSON_stringify (JArr vs) = CHR ''['' # stringify_elements vs @ '']''"
| "JSON_stringify (JObj ms) = CHR ''{'' # stringify_members ms @ ''}''"
| "stringify_elements [] = []"
| "stringify_elements [v] = JSON_stringify v"
| "stringify_elements (v # w # vs) = JSON_stringify v @ CHR '','' # stringify_elements (w # vs)"
| "stringify_members [] = []"
| "stringify_members [(k, v)] = quote k @ CHR '':'' # JSON_stringify v"
| "stringify_members ((k, v) # m # ms) =
     quote k @ CHR '':'' # JSON_stringify v @ CHR '','' # stringify_members (m # ms)"

definition is_ws :: "char \<Rightarrow> bool" where
  "is_ws c = (c = CHR 0x20 \<or> c = CHR 0x09 \<or> c = CHR 0x0A \<or> c = CHR 0x0D)"

definition skip_ws :: "string \<Rightarrow> string" where
  "skip_ws s = dropWhile is_ws s"

definition is_digit :: "char \<Rightarrow> bool" where
  "is_digit c = (48 \<le> (of_char c :: nat) \<and> (of_char c :: nat) \<le> 57)"

definition digits_value :: "string \<Rightarrow> nat" where
  "digits_value ds = foldl (\<lambda>a c. 10 * a + ((of_char c :: nat) - 48)) 0 ds"

definition parse_number :: "string \<Rightarrow> (json \<times> string) option" where
  "parse_number s =
     (let neg = (s \<noteq> [] \<and> hd s = CHR ''-'');
          s1 = (if neg then tl s else s);
          ds = takeWhile is_digit s1;
          rest = dropWhile is_digit s1
      in if ds = [] \<or> (1 < length ds \<and> hd ds = CHR ''0'') then None
         else if rest \<noteq> [] \<and> hd rest \<in> {CHR ''.'', CHR ''e'', CHR ''E''} then None
         else Some (JNum (if neg then - int (digits_value ds) else int (digits_value ds)), rest))"

definition unescape :: "char \<Rightarrow> char option" where
  "unescape e =
     (if e = CHR 0x22 then Some (CHR 0x22)
      else if e = CHR 0x5C then Some (CHR 0x5C)
      else if e = CHR ''/'' then Some (CHR ''/'')
      else if e = CHR ''b'' then Some (CHR 0x08)
      else if e = CHR ''f'' then Some (CHR 0x0C)
      else if e = CHR ''n'' then Some (CHR 0x0A)
      else if e = CHR ''r'' then Some (CHR 0x0D)
      else if e = CHR ''t'' then Some (CHR 0x09)
      else None)"

definition unicode_escape :: "char \<Rightarrow> char \<Rightarrow> char \<Rightarrow> char \<Rightarrow> char option" where
  "unicode_escape a b c d =
     (case (hex_value a, hex_value b, hex_value c, hex_value d) of
        (Some x3, Some x2, Some x1, Some x0) \<Rightarrow>
          (let n = ((x3 * 16 + x2) * 16 + x1) * 16 + x0
           in if n < 0x80 then Some (char_of n) else None)
      | _ \<Rightarrow> None)"

fun parse_chars :: "string \<Rightarrow> (string \<times> string) option" where
  "parse_chars [] = None"
| "parse_chars (c # cs) =
     (if c = CHR 0x22 then Some ([], cs)
      else if c = CHR 0x5C then
        (case cs of
           [] \<Rightarrow> None
         | e # cs1 \<Rightarrow>
             if e = CHR ''u'' then
               (case cs1 of
                  a # b # x # d # cs2 \<Rightarrow>
                    (case unicode_escape a b x d of
                       None \<Rightarrow> None
                     | Some ch \<Rightarrow> map_option (\<lambda>(t, r). (ch # t, r)) (parse_chars cs2))
                | _ \<Rightarrow> None)
             else
               (case unescape e of
                  None \<Rightarrow> None
                | Some ch \<Rightarrow> map_option (\<lambda>(t, r). (ch # t, r)) (parse_chars cs1)))
      else if (of_char c :: nat) < 0x20 then None
      else map_option (\<lambda>(t, r). (c # t, r)) (parse_chars cs))"

fun parse_value :: "nat \<Rightarrow> string \<Rightarrow> (json \<times> string) option"
  and parse_elements :: "nat \<Rightarrow> string \<Rightarrow> (json list \<times> string) option"
  and parse_members :: "nat \<Rightarrow> string \<Rightarrow> ((string \<times> json) list \<times> string) option"
where
  "parse_value 0 s = None"
| "parse_value (Suc n) s =
     (case skip_ws s of
        [] \<Rightarrow> None
      | c # cs \<Rightarrow>
          if c = CHR ''n'' then (if take 3 cs = ''ull'' then Some (JNull, drop 3 cs) else None)
          else if c = CHR ''t'' then (if take 3 cs = ''rue'' then Some (JBool True, drop 3 cs) else None)
          else if c = CHR ''f'' then (if take 4 cs = ''alse'' then Some (JBool False, drop 4 cs) else None)
          else if c = CHR 0x22 then map_option (\<lambda>(t, r). (JStr t, r)) (parse_chars cs)
          else if c = CHR ''['' then
            (case skip_ws cs of
               [] \<Rightarrow> None
             | d # ds \<Rightarrow>
                 if d = CHR '']'' then Some (JArr [], ds)
                 else map_option (\<lambda>(vs, r). (JArr vs, r)) (parse_elements n cs))
          else if c = CHR ''{'' then
            (case skip_ws cs of
               [] \<Rightarrow> None
             | d # ds \<Rightarrow>
                 if d = CHR ''}'' then Some (JObj [], ds)
                 else map_option (\<lambda>(ms, r). (JObj ms, r)) (parse_members n cs))
          else parse_number (c # cs))"
| "parse_elements 0 s = None"
| "parse_elements (Suc n) s =
     (case parse_value n s of
        None \<Rightarrow> None
      | Some (v, r) \<Rightarrow>
          (case skip_ws r of
             [] \<Rightarrow> None
           | c # cs \<Rightarrow>
               if c = CHR '','' then map_option (\<lambda>(vs, r'). (v # vs, r')) (parse_elements n cs)
               else if c = CHR '']'' then Some ([v], cs)
               else None))"
| "parse_members 0 s = None"
| "parse_members (Suc n) s =
     (case skip_ws s of
        [] \<Rightarrow> None
      | q # s1 \<Rightarrow>
          if q \<noteq> CHR 0x22 then None
          else
            (case parse_chars s1 of
               None \<Rightarrow> None
             | Some (k, s2) \<Rightarrow>
                 (case skip_ws s2 of
                    [] \<Rightarrow> None
                  | colon # s3 \<Rightarrow>
                      if colon \<noteq> CHR '':'' then None
                      else
                        (case parse_value n s3 of
                           None \<Rightarrow> None
                         | Some (v, r) \<Rightarrow>
                             (case skip_ws r of
                                [] \<Rightarrow> None
                              | c # cs \<Rightarrow>
                                  if c = CHR '','' then
                                    map_option (\<lambda>(ms, r'). ((k, v) # ms, r')) (parse_members n cs)
                                  else if c = CHR ''}'' then Some ([(k, v)], cs)
                                  else None)))))"

definition JSON_parse :: "string \<Rightarrow> json option" where
  "JSON_parse s =
     (case parse_value (length s) s of
        None \<Rightarrow> None
      | Some (v, r) \<Rightarrow> if skip_ws r = [] then Some v else None)"




section \<open>JavaScript numbers\<close>

text \<open>
  A JavaScript number is an IEEE 754 double. The counters of the cache are integers
  far below \<open>2 ^ 53\<close> and are exact, so they are natural numbers here; the hit rate is
  computed with a floating-point division and two multiplications, each of which rounds
  its exact result to the nearest double, ties to the even significand. \<open>fl\<close> is that
  rounding on the rationals (53 significant bits; the subnormal and overflow ranges are
  never reached by a percentage), and \<open>Math_round\<close> is \<^verbatim>\<open>Math.round\<close>, which
  rounds to the nearest integer with ties towards positive infinity.
\<close>

definition pow2 :: "int \<Rightarrow> rat" where
  "pow2 e = (if 0 \<le> e then 2 ^ nat e else 1 / 2 ^ nat (- e))"

function bit_length :: "int \<Rightarrow> nat" where
  "bit_length n = (if n \<le> 0 then 0 else Suc (bit_length (n div 2)))"
  by pat_completeness auto
termination
  by (relation "measure nat") auto

declare bit_length.simps [simp del]

definition binade :: "rat \<Rightarrow> int" where
  "binade x =
     (let (p, q) = quotient_of x;
          e = int (bit_length p) - int (bit_length q)
      in if pow2 e \<le> x then e else e - 1)"

definition round_ties_even :: "rat \<Rightarrow> int" where
  "round_ties_even x =
     (let f = \<lfloor>x\<rfloor>; d = x - of_int f
      in if d < 1 / 2 then f
         else if 1 / 2 < d then f + 1
         else if even f then f else f + 1)"

definition fl :: "rat \<Rightarrow> rat" where
  "fl x =
     (if x = 0 then 0
      else (let a = \<bar>x\<bar>; u = pow2 (binade a - 52)
            in sgn x * of_int (round_ties_even (a / u)) * u))"

definition Math_round :: "rat \<Rightarrow> rat" where
  "Math_round x = of_int \<lfloor>x + 1 / 2\<rfloor>"

section \<open>The key-value store behind the cache\<close>

text \<open>
  The service talks to Redis through a client object. The model of the client holds
  the entries of the store (an association list from key to text), a log of the
  commands the service has issued, a fault oracle saying which commands make the client
  throw (and with which message), and the server's pattern matcher used by
  \<^verbatim>\<open>KEYS\<close>. Expiry is the server's business and no time passes inside a call, so
  the time to live of an entry is only recorded in the command log. Every call returns
  \<open>Inl message\<close> when the client throws and \<open>Inr reply\<close> otherwise.
\<close>

datatype redis_command =
    GET string
  | SETEX string int string
  | DEL "string list"
  | EXISTS string
  | FLUSHALL
  | KEYS string
  | MGET "string list"
  | EXEC "(string \<times> int \<times> string) list"
  | PING

record redis_client =
  entries :: "(string \<times> string) list"
  issued :: "redis_command list"
  faults :: "redis_command \<Rightarrow> string option"
  glob :: "string \<Rightarrow> string \<Rightarrow> bool"

definition send :: "redis_command \<Rightarrow> redis_client \<Rightarrow> redis_client" where
  "send c r = r\<lparr>issued := issued r @ [c]\<rparr>"

definition redis_get :: "string \<Rightarrow> redis_client \<Rightarrow> (string + string option) \<times> redis_client" where
  "redis_get k r =
     (case faults r (GET k) of
        Some e \<Rightarrow> (Inl e, send (GET k) r)
      | None \<Rightarrow> (Inr (map_of (entries r) k), send (GET k) r))"

definition redis_setex :: "string \<Rightarrow> int \<Rightarrow> string \<Rightarrow> redis_client \<Rightarrow> (string + string) \<times> redis_client" where
  "redis_setex k t v r =
     (case faults r (SETEX k t v) of
        Some e \<Rightarrow> (Inl e, send (SETEX k t v) r)
      | None \<Rightarrow>
          if t \<le> 0 then (Inl ''ERR invalid expire time in setex'', send (SETEX k t v) r)
          else (Inr ''OK'', (send (SETEX k t v) r)\<lparr>entries := AList.update k v (entries r)\<rparr>))"

definition redis_del :: "string list \<Rightarrow> redis_client \<Rightarrow> (string + nat) \<times> redis_client" where
  "redis_del ks r =
     (case faults r (DEL ks) of
        Some e \<Rightarrow> (Inl e, send (DEL ks) r)
      | None \<Rightarrow>
          if ks = [] then (Inl ''ERR wrong number of arguments for del'', send (DEL ks) r)
          else (Inr (length (filter (\<lambda>k. map_of (entries r) k \<noteq> None) (remdups ks))),
                (send (DEL ks) r)\<lparr>entries := filter (\<lambda>e. fst e \<notin> set ks) (entries r)\<rparr>))"

definition redis_exists :: "string \<Rightarrow> redis_client \<Rightarrow> (string + nat) \<times> redis_client" where
  "redis_exists k r =
     (case faults r (EXISTS k) of
        Some e \<Rightarrow> (Inl e, send (EXISTS k) r)
      | None \<Rightarrow> (Inr (if map_of (entries r) k \<noteq> None then 1 else 0), send (EXISTS k) r))"

definition redis_flushall :: "redis_client \<Rightarrow> (string + string) \<times> redis_client" where
  "redis_flushall r =
     (case faults r FLUSHALL of
        Some e \<Rightarrow> (Inl e, send FLUSHALL r)
      | None \<Rightarrow> (Inr ''OK'', (send FLUSHALL r)\<lparr>entries := []\<rparr>))"

definition redis_keys :: "string \<Rightarrow> redis_client \<Rightarrow> (string + string list) \<times> redis_client" where
  "redis_keys p r =
     (case faults r (KEYS p) of
        Some e \<Rightarrow> (Inl e, send (KEYS p) r)
      | None \<Rightarrow> (Inr (filter (glob r p) (map fst (entries r))), send (KEYS p) r))"

definition redis_mget :: "string list \<Rightarrow> redis_client \<Rightarrow> (string + string option list) \<times> redis_client" where
  "redis_mget ks r =
     (case faults r (MGET ks) of
        Some e \<Rightarrow> (Inl e, send (MGET ks) r)
      | None \<Rightarrow>
          if ks = [] then (Inl ''ERR wrong number of arguments for mget'', send (MGET ks) r)
          else (Inr (map (map_of (entries r)) ks), send (MGET ks) r))"

text \<open>
  A pipeline queues its \<^verbatim>\<open>SETEX\<close> commands and sends them in one round trip. A
  queued command the server refuses (a time to live that is not positive) is reported
  in the reply and does not make \<^verbatim>\<open>exec\<close> throw; the other commands still run.
\<close>

definition redis_exec :: "(string \<times> int \<times> string) list \<Rightarrow> redis_client \<Rightarrow> (string + unit) \<times> redis_client" where
  "redis_exec cs r =
     (case faults r (EXEC cs) of
        Some e \<Rightarrow> (Inl e, send (EXEC cs) r)
      | None \<Rightarrow>
          (Inr (),
           (send (EXEC cs) r)\<lparr>entries :=
              foldl (\<lambda>es c. if fst (snd c) \<le> 0 then es else AList.update (fst c) (snd (snd c)) es)
                (entries r) cs\<rparr>))"

definition redis_ping :: "redis_client \<Rightarrow> (string + string) \<times> redis_client" where
  "redis_ping r =
     (case faults r PING of
        Some e \<Rightarrow> (Inl e, send PING r)
      | None \<Rightarrow> (Inr ''PONG'', send PING r))"


section \<open>The cache service\<close>

text \<open>
  The state of \<^verbatim>\<open>CacheService\<close>: the client, the five counters, the connection
  flag, and the two collaborators the service writes to, the structured logger (level
  and message of each line) and the metrics collector (name, value, unit and tags of
  each sample). \<^verbatim>\<open>Date.now()\<close> reads a clock: \<open>clock s n\<close> is the value of the
  \<open>n\<close>-th reading and \<open>reads s\<close> counts the readings taken so far.
\<close>

record CacheOptions =
  ttl :: "int option"
  prefix :: "string option"
  compress :: "bool option"

record CacheStats =
  hits :: nat
  misses :: nat
  sets :: nat
  deletes :: nat
  errors :: nat

record CacheService =
  redis :: redis_client
  stats :: CacheStats
  isConnected :: bool
  logs :: "(string \<times> string) list"
  metrics :: "(string \<times> int \<times> string \<times> (string \<times> string) list) list"
  clock :: "nat \<Rightarrow> int"
  reads :: nat

definition defaultTTL :: int where
  "defaultTTL = 300"

definition no_options :: CacheOptions where
  "no_options = \<lparr>ttl = None, prefix = None, compress = None\<rparr>"

definition Date_now :: "CacheService \<Rightarrow> int \<times> CacheService" where
  "Date_now s = (clock s (reads s), s\<lparr>reads := Suc (reads s)\<rparr>)"

definition logger :: "string \<Rightarrow> string \<Rightarrow> CacheService \<Rightarrow> CacheService" where
  "logger level message s = s\<lparr>logs := logs s @ [(level, message)]\<rparr>"

definition recordMetric ::
  "string \<Rightarrow> int \<Rightarrow> string \<Rightarrow> (string \<times> string) list \<Rightarrow> CacheService \<Rightarrow> CacheService" where
  "recordMetric name v unit tags s = s\<lparr>metrics := metrics s @ [(name, v, unit, tags)]\<rparr>"

definition call :: "(redis_client \<Rightarrow> 'a \<times> redis_client) \<Rightarrow> CacheService \<Rightarrow> 'a \<times> CacheService" where
  "call f s = (case f (redis s) of (x, r) \<Rightarrow> (x, s\<lparr>redis := r\<rparr>))"

definition count_hit :: "CacheService \<Rightarrow> CacheService" where
  "count_hit s = s\<lparr>stats := (stats s)\<lparr>hits := Suc (hits (stats s))\<rparr>\<rparr>"

definition count_miss :: "CacheService \<Rightarrow> CacheService" where
  "count_miss s = s\<lparr>stats := (stats s)\<lparr>misses := Suc (misses (stats s))\<rparr>\<rparr>"

definition count_sets :: "nat \<Rightarrow> CacheService \<Rightarrow> CacheService" where
  "count_sets n s = s\<lparr>stats := (stats s)\<lparr>sets := sets (stats s) + n\<rparr>\<rparr>"

definition count_delete :: "CacheService \<Rightarrow> CacheService" where
  "count_delete s = s\<lparr>stats := (stats s)\<lparr>deletes := Suc (deletes (stats s))\<rparr>\<rparr>"

definition count_error :: "CacheService \<Rightarrow> CacheService" where
  "count_error s = s\<lparr>stats := (stats s)\<lparr>errors := Suc (errors (stats s))\<rparr>\<rparr>"

text \<open>The handlers of the client's connection events.\<close>

definition on_connect :: "CacheService \<Rightarrow> CacheService" where
  "on_connect s = logger ''info'' ''Redis connected successfully'' (s\<lparr>isConnected := True\<rparr>)"

definition on_error :: "string \<Rightarrow> CacheService \<Rightarrow> CacheService" where
  "on_error name s =
     recordMetric ''cache_errors_total'' 1 ''count'' [(''error_type'', name)]
       (logger ''error'' ''Redis connection error'' (count_error (s\<lparr>isConnected := False\<rparr>)))"

definition on_reconnecting :: "CacheService \<Rightarrow> CacheService" where
  "on_reconnecting s = logger ''warn'' ''Redis reconnecting...'' s"

definition on_ready :: "CacheService \<Rightarrow> CacheService" where
  "on_ready s = logger ''info'' ''Redis ready for operations'' (s\<lparr>isConnected := True\<rparr>)"

definition buildKey :: "string \<Rightarrow> string option \<Rightarrow> string" where
  "buildKey key p =
     (case p of
        None \<Rightarrow> key
      | Some pre \<Rightarrow> if pre = [] then key else pre @ '':'' @ key)"

text \<open>
  \<^verbatim>\<open>executeWithFallback\<close>: a disconnected service runs only the fallback; a
  connected one runs the operation and, when it throws, counts an error, logs a warning
  and runs the fallback. The result is \<open>Inr\<close> of a value: nothing is rethrown.
\<close>

definition executeWithFallback ::
  "(CacheService \<Rightarrow> (string + 'a) \<times> CacheService) \<Rightarrow> (CacheService \<Rightarrow> 'a \<times> CacheService) \<Rightarrow>
   CacheService \<Rightarrow> (string + 'a) \<times> CacheService" where
  "executeWithFallback operation fallback s =
     (if \<not> isConnected s then (case fallback s of (v, s') \<Rightarrow> (Inr v, s'))
      else
        (case operation s of
           (Inr v, s') \<Rightarrow> (Inr v, s')
         | (Inl e, s') \<Rightarrow>
             (case fallback (logger ''warn'' ''Cache operation failed, using fallback'' (count_error s')) of
                (v, s'') \<Rightarrow> (Inr v, s''))))"

text \<open>
  \<^verbatim>\<open>get\<close> returns a JavaScript value or \<^verbatim>\<open>null\<close>; \<^verbatim>\<open>null\<close> is \<open>JNull\<close>,
  also when it is what the stored text parses to. A stored text that does not parse is
  returned as the string it is.
\<close>

definition parse_or_raw :: "string \<Rightarrow> json" where
  "parse_or_raw text = (case JSON_parse text of Some v \<Rightarrow> v | None \<Rightarrow> JStr text)"

definition get_operation :: "string \<Rightarrow> CacheOptions \<Rightarrow> CacheService \<Rightarrow> (string + json) \<times> CacheService" where
  "get_operation key options s =
     (let fullKey = buildKey key (prefix options);
          (startTime, s1) = Date_now s;
          (reply, s2) = call (redis_get fullKey) s1
      in case reply of
           Inl e \<Rightarrow> (Inl e, s2)
         | Inr result \<Rightarrow>
             (let (endTime, s3) = Date_now s2;
                  duration = endTime - startTime;
                  s4 = recordMetric ''cache_operation_duration'' duration ''milliseconds''
                         [(''operation'', ''get''),
                          (''hit'', if result \<noteq> None then ''true'' else ''false'')] s3
              in case result of
                   Some text \<Rightarrow>
                     (Inr (parse_or_raw text),
                      recordMetric ''cache_hits_total'' 1 ''count'' [] (count_hit s4))
                 | None \<Rightarrow>
                     (Inr JNull,
                      recordMetric ''cache_misses_total'' 1 ''count'' [] (count_miss s4))))"

definition get :: "string \<Rightarrow> CacheOptions \<Rightarrow> CacheService \<Rightarrow> (string + json) \<times> CacheService" where
  "get key options = executeWithFallback (get_operation key options) (\<lambda>s. (JNull, count_miss s))"

definition serialize :: "json \<Rightarrow> string" where
  "serialize v = (case v of JStr text \<Rightarrow> text | _ \<Rightarrow> JSON_stringify v)"

definition ttl_or :: "int option \<Rightarrow> int \<Rightarrow> int" where
  "ttl_or t d = (case t of None \<Rightarrow> d | Some n \<Rightarrow> if n = 0 then d else n)"

definition set_operation ::
  "string \<Rightarrow> json \<Rightarrow> CacheOptions \<Rightarrow> CacheService \<Rightarrow> (string + bool) \<times> CacheService" where
  "set_operation key v options s =
     (let fullKey = buildKey key (prefix options);
          t = ttl_or (ttl options) defaultTTL;
          (startTime, s1) = Date_now s;
          serializedValue = serialize v;
          (reply, s2) = call (redis_setex fullKey t serializedValue) s1
      in case reply of
           Inl e \<Rightarrow> (Inl e, s2)
         | Inr ok \<Rightarrow>
             (let (endTime, s3) = Date_now s2;
                  duration = endTime - startTime;
                  s4 = count_sets 1 s3;
                  s5 = recordMetric ''cache_operation_duration'' duration ''milliseconds''
                         [(''operation'', ''set'')] s4
              in (Inr True, recordMetric ''cache_sets_total'' 1 ''count'' [] s5)))"

definition set_cache ::
  "string \<Rightarrow> json \<Rightarrow> CacheOptions \<Rightarrow> CacheService \<Rightarrow> (string + bool) \<times> CacheService" where
  "set_cache key v options = executeWithFallback (set_operation key v options) (\<lambda>s. (False, s))"

definition delete_operation :: "string \<Rightarrow> CacheOptions \<Rightarrow> CacheService \<Rightarrow> (string + bool) \<times> CacheService" where
  "delete_operation key options s =
     (let fullKey = buildKey key (prefix options);
          (startTime, s1) = Date_now s;
          (reply, s2) = call (redis_del [fullKey]) s1
      in case reply of
           Inl e \<Rightarrow> (Inl e, s2)
         | Inr result \<Rightarrow>
             (let (endTime, s3) = Date_now s2;
                  duration = endTime - startTime;
                  s4 = count_delete s3;
                  s5 = recordMetric ''cache_operation_duration'' duration ''milliseconds''
                         [(''operation'', ''delete'')] s4
              in (Inr (0 < result), recordMetric ''cache_deletes_total'' 1 ''count'' [] s5)))"

definition delete :: "string \<Rightarrow> CacheOptions \<Rightarrow> CacheService \<Rightarrow> (string + bool) \<times> CacheService" where
  "delete key options = executeWithFallback (delete_operation key options) (\<lambda>s. (False, s))"

definition exists_operation :: "string \<Rightarrow> CacheOptions \<Rightarrow> CacheService \<Rightarrow> (string + bool) \<times> CacheService" where
  "exists_operation key options s =
     (let fullKey = buildKey key (prefix options);
          (reply, s1) = call (redis_exists fullKey) s
      in case reply of
           Inl e \<Rightarrow> (Inl e, s1)
         | Inr result \<Rightarrow> (Inr (result = 1), s1))"

definition exists_cache :: "string \<Rightarrow> CacheOptions \<Rightarrow> CacheService \<Rightarrow> (string + bool) \<times> CacheService" where
  "exists_cache key options = executeWithFallback (exists_operation key options) (\<lambda>s. (False, s))"

definition flush_matching :: "string \<Rightarrow> CacheService \<Rightarrow> (string + unit) \<times> CacheService" where
  "flush_matching pattern s =
     (case call (redis_keys pattern) s of
        (Inl e, s1) \<Rightarrow> (Inl e, s1)
      | (Inr keys, s1) \<Rightarrow>
          if 0 < length keys then
            (case call (redis_del keys) s1 of
               (Inl e, s2) \<Rightarrow> (Inl e, s2)
             | (Inr n, s2) \<Rightarrow> (Inr (), s2))
          else (Inr (), s1))"

definition flush_everything :: "CacheService \<Rightarrow> (string + unit) \<times> CacheService" where
  "flush_everything s =
     (case call redis_flushall s of
        (Inl e, s1) \<Rightarrow> (Inl e, s1)
      | (Inr ok, s1) \<Rightarrow> (Inr (), s1))"

definition flush_operation :: "string option \<Rightarrow> CacheService \<Rightarrow> (string + bool) \<times> CacheService" where
  "flush_operation pattern s =
     (case (case pattern of
              None \<Rightarrow> flush_everything s
            | Some p \<Rightarrow> if p = [] then flush_everything s else flush_matching p s) of
        (Inl e, s1) \<Rightarrow> (Inl e, s1)
      | (Inr u, s1) \<Rightarrow> (Inr True, logger ''info'' ''Cache flushed'' s1))"

definition flush :: "string option \<Rightarrow> CacheService \<Rightarrow> (string + bool) \<times> CacheService" where
  "flush pattern = executeWithFallback (flush_operation pattern) (\<lambda>s. (False, s))"

text \<open>
  The batched read maps over the replies, counting a hit or a miss for each; its
  fallback maps over the requested keys, counting a miss for each and answering
  \<^verbatim>\<open>null\<close> for each.
\<close>

fun read_results :: "string option list \<Rightarrow> CacheService \<Rightarrow> json list \<times> CacheService" where
  "read_results [] s = ([], s)"
| "read_results (Some text # rs) s =
     (case read_results rs (count_hit s) of (vs, s') \<Rightarrow> (parse_or_raw text # vs, s'))"
| "read_results (None # rs) s =
     (case read_results rs (count_miss s) of (vs, s') \<Rightarrow> (JNull # vs, s'))"

fun miss_all :: "string list \<Rightarrow> CacheService \<Rightarrow> json list \<times> CacheService" where
  "miss_all [] s = ([], s)"
| "miss_all (k # ks) s = (case miss_all ks (count_miss s) of (vs, s') \<Rightarrow> (JNull # vs, s'))"

definition getMultiple_operation ::
  "string list \<Rightarrow> CacheOptions \<Rightarrow> CacheService \<Rightarrow> (string + json list) \<times> CacheService" where
  "getMultiple_operation keys options s =
     (let fullKeys = map (\<lambda>key. buildKey key (prefix options)) keys;
          (reply, s1) = call (redis_mget fullKeys) s
      in case reply of
           Inl e \<Rightarrow> (Inl e, s1)
         | Inr results \<Rightarrow> (case read_results results s1 of (vs, s2) \<Rightarrow> (Inr vs, s2)))"

definition getMultiple ::
  "string list \<Rightarrow> CacheOptions \<Rightarrow> CacheService \<Rightarrow> (string + json list) \<times> CacheService" where
  "getMultiple keys options = executeWithFallback (getMultiple_operation keys options) (miss_all keys)"

record CacheEntry =
  entry_key :: string
  entry_value :: json
  entry_ttl :: "int option"

definition setMultiple_operation ::
  "CacheEntry list \<Rightarrow> CacheOptions \<Rightarrow> CacheService \<Rightarrow> (string + bool) \<times> CacheService" where
  "setMultiple_operation es options s =
     (let pipeline =
            map (\<lambda>entry.
                   (buildKey (entry_key entry) (prefix options),
                    ttl_or (entry_ttl entry) (ttl_or (ttl options) defaultTTL),
                    serialize (entry_value entry))) es;
          (reply, s1) = call (redis_exec pipeline) s
      in case reply of
           Inl e \<Rightarrow> (Inl e, s1)
         | Inr u \<Rightarrow>
             (Inr True,
              recordMetric ''cache_sets_total'' (int (length es)) ''count'' [] (count_sets (length es) s1)))"

definition setMultiple ::
  "CacheEntry list \<Rightarrow> CacheOptions \<Rightarrow> CacheService \<Rightarrow> (string + bool) \<times> CacheService" where
  "setMultiple es options = executeWithFallback (setMultiple_operation es options) (\<lambda>s. (False, s))"

definition invalidatePattern_operation :: "string \<Rightarrow> CacheService \<Rightarrow> (string + nat) \<times> CacheService" where
  "invalidatePattern_operation pattern s =
     (case call (redis_keys pattern) s of
        (Inl e, s1) \<Rightarrow> (Inl e, s1)
      | (Inr keys, s1) \<Rightarrow>
          if 0 < length keys then
            (case call (redis_del keys) s1 of
               (Inl e, s2) \<Rightarrow> (Inl e, s2)
             | (Inr n, s2) \<Rightarrow> (Inr (length keys), logger ''info'' ''Cache pattern invalidated'' s2))
          else (Inr 0, s1))"

definition invalidatePattern :: "string \<Rightarrow> CacheService \<Rightarrow> (string + nat) \<times> CacheService" where
  "invalidatePattern pattern = executeWithFallback (invalidatePattern_operation pattern) (\<lambda>s. (0, s))"

text \<open>
  \<^verbatim>\<open>getStats\<close> copies the counters and adds the hit rate, a double: the quotient
  of two exact integers, times 100, times 100 again, rounded by \<^verbatim>\<open>Math.round\<close> and
  divided by 100, each operation rounding to the nearest double.
\<close>

record Stats = CacheStats +
  hitRate :: rat

definition getStats :: "CacheService \<Rightarrow> Stats" where
  "getStats s =
     (let totalRequests = hits (stats s) + misses (stats s);
          rate = (if 0 < totalRequests
                  then fl (fl (of_nat (hits (stats s)) / of_nat totalRequests) * 100)
                  else 0)
      in \<lparr>hits = hits (stats s), misses = misses (stats s), sets = sets (stats s),
          deletes = deletes (stats s), errors = errors (stats s),
          hitRate = fl (Math_round (fl (rate * 100)) / 100)\<rparr>)"

datatype health_status = healthy | degraded | unhealthy

record Health =
  status :: health_status
  latency :: "int option"
  error :: "string option"

definition healthCheck :: "CacheService \<Rightarrow> Health \<times> CacheService" where
  "healthCheck s =
     (let (startTime, s1) = Date_now s;
          (reply, s2) = call redis_ping s1
      in case reply of
           Inl message \<Rightarrow> (\<lparr>status = unhealthy, latency = None, error = Some message\<rparr>, s2)
         | Inr pong \<Rightarrow>
             (let (endTime, s3) = Date_now s2;
                  l = endTime - startTime
              in (\<lparr>status = (if l < 100 then healthy else degraded), latency = Some l, error = None\<rparr>,
                  s3)))"

definition resetStats :: "CacheService \<Rightarrow> CacheService" where
  "resetStats s = s\<lparr>stats := \<lparr>hits = 0, misses = 0, sets = 0, deletes = 0, errors = 0\<rparr>\<rparr>"


text \<open>Two services used to run the model on concrete inputs: one whose client answers
  every command, one whose client throws on every command.\<close>

definition example_client :: redis_client where
  "example_client = \<lparr>entries = [], issued = [], faults = (\<lambda>c. None), glob = (\<lambda>p k. True)\<rparr>"

definition example_service :: "bool \<Rightarrow> CacheService" where
  "example_service up =
     \<lparr>redis = example_client,
      stats = \<lparr>hits = 0, misses = 0, sets = 0, deletes = 0, errors = 0\<rparr>,
      isConnected = up, logs = [], metrics = [], clock = (\<lambda>n. 1000 + 5 * int n), reads = 0\<rparr>"

definition failing_service :: CacheService where
  "failing_service = (example_service True)\<lparr>redis := example_client\<lparr>faults := (\<lambda>c. Some ''ECONNRESET'')\<rparr>\<rparr>"

definition stats_le :: "CacheStats \<Rightarrow> CacheStats \<Rightarrow> bool" where
  "stats_le a b =
     (hits a \<le> hits b \<and> misses a \<le> misses b \<and> sets a \<le> sets b \<and>
      deletes a \<le> deletes b \<and> errors a \<le> errors b)"

definition slow_service :: CacheService where
  "slow_service = (example_service True)\<lparr>clock := (\<lambda>n. 1000 + 150 * int n)\<rparr>"


section \<open>The HTTP layer\<close>

text \<open>
  What the middlewares read of an Express request and read and write of a response. The
  query is \<^verbatim>\<open>req.query\<close> typed as the source types it, a record of strings, listed
  in the order in which JavaScript enumerates its properties; \<open>user\<close> is
  \<^verbatim>\<open>req.user?.id\<close>. Header names are case-insensitive: the response keeps them in
  lower case, as Node does. A header value is the text \<^verbatim>\<open>toString\<close> gives.
\<close>

record Request =
  http_method :: string
  path :: string
  query :: "(string \<times> string) list"
  user :: "string option"

record Response =
  statusCode :: int
  headers :: "(string \<times> string) list"
  body :: "json option"

definition to_lower :: "char \<Rightarrow> char" where
  "to_lower c =
     (if 65 \<le> (of_char c :: nat) \<and> (of_char c :: nat) \<le> 90 then char_of ((of_char c :: nat) + 32) else c)"

definition setHeader :: "string \<Rightarrow> string \<Rightarrow> Response \<Rightarrow> Response" where
  "setHeader name v r = r\<lparr>headers := AList.update (map to_lower name) v (headers r)\<rparr>"

definition getHeader :: "string \<Rightarrow> Response \<Rightarrow> string option" where
  "getHeader name r = map_of (headers r) (map to_lower name)"

fun str_includes :: "string \<Rightarrow> string \<Rightarrow> bool" where
  "str_includes [] needle = (needle = [])"
| "str_includes (c # cs) needle = (take (length needle) (c # cs) = needle \<or> str_includes cs needle)"

subsection \<open>The default cache key\<close>

text \<open>
  \<^verbatim>\<open>new URLSearchParams(record).toString()\<close> serialises the pairs in enumeration order
  as \<^verbatim>\<open>name=value\<close> joined by \<^verbatim>\<open>&\<close>, each name and value percent-encoded byte
  by byte: letters, digits and \<^verbatim>\<open>* - . _\<close> stand for themselves, a space becomes
  \<^verbatim>\<open>+\<close>, every other byte becomes \<^verbatim>\<open>%\<close> and two upper-case hexadecimal digits.
  Nothing sorts the pairs.
\<close>

definition is_alnum :: "char \<Rightarrow> bool" where
  "is_alnum c =
     (let n = (of_char c :: nat)
      in (48 \<le> n \<and> n \<le> 57) \<or> (65 \<le> n \<and> n \<le> 90) \<or> (97 \<le> n \<and> n \<le> 122))"

definition form_encode_char :: "char \<Rightarrow> string" where
  "form_encode_char c =
     (if c = CHR 0x20 then ''+''
      else if is_alnum c \<or> c = CHR ''*'' \<or> c = CHR ''-'' \<or> c = CHR ''.'' \<or> c = CHR ''_'' then [c]
      else [CHR ''%'', hex_upper ((of_char c :: nat) div 16), hex_upper ((of_char c :: nat) mod 16)])"

definition form_encode :: "string \<Rightarrow> string" where
  "form_encode s = concat (map form_encode_char s)"

fun URLSearchParams_toString :: "(string \<times> string) list \<Rightarrow> string" where
  "URLSearchParams_toString [] = []"
| "URLSearchParams_toString [(k, v)] = form_encode k @ CHR ''='' # form_encode v"
| "URLSearchParams_toString ((k, v) # p # ps) =
     form_encode k @ CHR ''='' # form_encode v @ CHR ''&'' # URLSearchParams_toString (p # ps)"

definition callerId :: "Request \<Rightarrow> string" where
  "callerId req = (case user req of None \<Rightarrow> ''anonymous'' | Some i \<Rightarrow> if i = [] then ''anonymous'' else i)"

definition defaultKeyGenerator :: "Request \<Rightarrow> string" where
  "defaultKeyGenerator req =
     (let userId = callerId req;
          queryString = URLSearchParams_toString (query req);
          baseKey = http_method req @ '':'' @ path req
      in if queryString \<noteq> [] then baseKey @ '':'' @ queryString @ '':user:'' @ userId
         else baseKey @ '':user:'' @ userId)"

definition defaultCondition :: "Request \<Rightarrow> Response \<Rightarrow> bool" where
  "defaultCondition req r =
     (statusCode r < 400 \<and>
      \<not> (case getHeader ''Cache-Control'' r of None \<Rightarrow> False | Some v \<Rightarrow> str_includes v ''no-cache''))"

definition extractCacheableHeaders :: "Response \<Rightarrow> string list \<Rightarrow> (string \<times> json) list" where
  "extractCacheableHeaders r vary =
     (let hs = foldl (\<lambda>hs headerName.
                        case getHeader headerName r of
                          None \<Rightarrow> hs
                        | Some v \<Rightarrow> if v = [] then hs else AList.update headerName (JStr v) hs)
                 [] vary
      in case getHeader ''Content-Type'' r of
           None \<Rightarrow> hs
         | Some v \<Rightarrow> if v = [] then hs else AList.update ''Content-Type'' (JStr v) hs)"

subsection \<open>The world a middleware runs in\<close>

text \<open>
  A middleware replaces \<^verbatim>\<open>res.json\<close> by a function that does its own work and then
  calls the function it replaced. The replacements are kept as a list of hooks, the one
  installed last first; \<open>res_json\<close> runs them in that order and then the original
  \<^verbatim>\<open>res.json\<close> of Express, which stores the body. The world also holds the cache
  service, the lines of the middlewares' own logger and a record of the calls the
  middlewares make to the cache service. The write-back and the invalidation are started
  without being awaited; here each runs to completion where it is started.
\<close>

datatype json_hook =
    CacheResponse Request string int "Request \<Rightarrow> Response \<Rightarrow> bool" "string list"
  | InvalidatePatterns Request "string list"

datatype cache_call =
    Called_get string CacheOptions
  | Called_set string json CacheOptions
  | Called_invalidatePattern string

record World =
  cache :: CacheService
  res :: Response
  json_hooks :: "json_hook list"
  cache_calls :: "cache_call list"
  middleware_logs :: "(string \<times> string) list"

definition log_line :: "string \<Rightarrow> string \<Rightarrow> World \<Rightarrow> World" where
  "log_line level message w = w\<lparr>middleware_logs := middleware_logs w @ [(level, message)]\<rparr>"

definition cache_get :: "string \<Rightarrow> CacheOptions \<Rightarrow> World \<Rightarrow> (string + json) \<times> World" where
  "cache_get key options w =
     (case get key options (cache w) of
        (r, c) \<Rightarrow> (r, w\<lparr>cache := c, cache_calls := cache_calls w @ [Called_get key options]\<rparr>))"

definition cache_set :: "string \<Rightarrow> json \<Rightarrow> CacheOptions \<Rightarrow> World \<Rightarrow> (string + bool) \<times> World" where
  "cache_set key v options w =
     (case set_cache key v options (cache w) of
        (r, c) \<Rightarrow> (r, w\<lparr>cache := c, cache_calls := cache_calls w @ [Called_set key v options]\<rparr>))"

definition cache_invalidatePattern :: "string \<Rightarrow> World \<Rightarrow> (string + nat) \<times> World" where
  "cache_invalidatePattern pattern w =
     (case invalidatePattern pattern (cache w) of
        (r, c) \<Rightarrow> (r, w\<lparr>cache := c, cache_calls := cache_calls w @ [Called_invalidatePattern pattern]\<rparr>))"

definition invalidate_one :: "World \<Rightarrow> string \<Rightarrow> World" where
  "invalidate_one w pattern =
     (case cache_invalidatePattern pattern w of
        (Inr n, w1) \<Rightarrow> log_line ''debug'' ''Cache invalidated'' w1
      | (Inl e, w1) \<Rightarrow> log_line ''warn'' ''Cache invalidation failed'' w1)"

fun run_hook :: "json_hook \<Rightarrow> json \<Rightarrow> World \<Rightarrow> World" where
  "run_hook (CacheResponse req cacheKey t condition vary) data w =
     (if condition req (res w) \<and> 200 \<le> statusCode (res w) \<and> statusCode (res w) < 300 then
        (let responseToCache =
               JObj [(''data'', data),
                     (''headers'', JObj (extractCacheableHeaders (res w) vary)),
                     (''statusCode'', JNum (statusCode (res w)))]
         in case cache_set cacheKey responseToCache \<lparr>ttl = Some t, prefix = Some ''response'', compress = None\<rparr> w of
              (Inr ok, w1) \<Rightarrow> log_line ''debug'' ''Response cached'' w1
            | (Inl e, w1) \<Rightarrow> log_line ''debug'' ''Response cached'' (log_line ''warn'' ''Failed to cache response'' w1))
      else w)"
| "run_hook (InvalidatePatterns req patterns) data w =
     (if 200 \<le> statusCode (res w) \<and> statusCode (res w) < 300 then foldl invalidate_one w patterns
      else w)"

definition original_json :: "json \<Rightarrow> World \<Rightarrow> World" where
  "original_json data w =
     w\<lparr>res := (case getHeader ''Content-Type'' (res w) of
                  None \<Rightarrow> setHeader ''Content-Type'' ''application/json; charset=utf-8'' (res w)
                | Some v \<Rightarrow> res w)\<lparr>body := Some data\<rparr>\<rparr>"

definition res_json :: "json \<Rightarrow> World \<Rightarrow> World" where
  "res_json data w = original_json data (foldl (\<lambda>w' h. run_hook h data w') w (json_hooks w))"

definition res_status :: "int \<Rightarrow> World \<Rightarrow> World" where
  "res_status code w = w\<lparr>res := (res w)\<lparr>statusCode := code\<rparr>\<rparr>"

definition res_setHeader :: "string \<Rightarrow> string \<Rightarrow> World \<Rightarrow> World" where
  "res_setHeader name v w = w\<lparr>res := setHeader name v (res w)\<rparr>"

subsection \<open>The response-cache middleware\<close>

text \<open>
  A cached response is whatever \<open>get\<close> returns, a JavaScript value. The middleware tests
  its truthiness and reads its properties \<open>headers\<close>, \<open>statusCode\<close> and \<open>data\<close> without
  checking its shape. \<^verbatim>\<open>Object.entries\<close> throws on a missing \<open>headers\<close>, and a
  status code that is not a number makes the response throw when sent; both land in
  the \<^verbatim>\<open>catch\<close> of the middleware, which calls the downstream handler.
\<close>

definition truthy :: "json \<Rightarrow> bool" where
  "truthy v =
     (case v of
        JNull \<Rightarrow> False
      | JBool b \<Rightarrow> b
      | JNum i \<Rightarrow> i \<noteq> 0
      | JStr s \<Rightarrow> s \<noteq> []
      | _ \<Rightarrow> True)"

definition property :: "string \<Rightarrow> json \<Rightarrow> json option" where
  "property name v = (case v of JObj ms \<Rightarrow> map_of (rev ms) name | _ \<Rightarrow> None)"

definition Object_entries :: "json option \<Rightarrow> string + (string \<times> json) list" where
  "Object_entries v =
     (case v of
        None \<Rightarrow> Inl ''TypeError: Cannot convert undefined or null to object''
      | Some JNull \<Rightarrow> Inl ''TypeError: Cannot convert undefined or null to object''
      | Some (JObj ms) \<Rightarrow> Inr ms
      | Some (JStr s) \<Rightarrow> Inr (zip (map digits [0..<length s]) (map (\<lambda>c. JStr [c]) s))
      | Some (JArr vs) \<Rightarrow> Inr (zip (map digits [0..<length vs]) vs)
      | Some _ \<Rightarrow> Inr [])"

text \<open>
  \<^verbatim>\<open>res.setHeader\<close> is given a property value of the cached object; the header
  holds the text JavaScript converts the value to.
\<close>

fun join :: "string \<Rightarrow> string list \<Rightarrow> string" where
  "join sep [] = []"
| "join sep [x] = x"
| "join sep (x # y # xs) = x @ sep @ join sep (y # xs)"

fun String_of :: "json \<Rightarrow> string" where
  "String_of JNull = ''null''"
| "String_of (JBool b) = (if b then ''true'' else ''false'')"
| "String_of (JNum i) = show_int i"
| "String_of (JStr s) = s"
| "String_of (JArr vs) = join '','' (map (\<lambda>v. if v = JNull then [] else String_of v) vs)"
| "String_of (JObj ms) = ''[object Object]''"

definition replay :: "json \<Rightarrow> int \<Rightarrow> World \<Rightarrow> (string + unit) \<times> World" where
  "replay cachedResponse t w =
     (case Object_entries (property ''headers'' cachedResponse) of
        Inl e \<Rightarrow> (Inl e, w)
      | Inr hs \<Rightarrow>
          (let w1 = foldl (\<lambda>w' kv. res_setHeader (fst kv) (String_of (snd kv)) w') w hs;
               w2 = res_setHeader ''X-Cache'' ''HIT'' w1;
               w3 = res_setHeader ''Cache-Control'' (''max-age='' @ show_int t) w2;
               w4 = log_line ''debug'' ''Cache hit'' w3
           in case property ''statusCode'' cachedResponse of
                Some (JNum code) \<Rightarrow>
                  (Inr (), res_json (case property ''data'' cachedResponse of None \<Rightarrow> JNull | Some d \<Rightarrow> d)
                             (res_status code w4))
              | _ \<Rightarrow> (Inl ''RangeError: Invalid status code'', w4)))"

record CacheMiddlewareOptions =
  opt_ttl :: "int option"
  keyGenerator :: "(Request \<Rightarrow> string) option"
  condition :: "(Request \<Rightarrow> Response \<Rightarrow> bool) option"
  vary :: "string list option"
  skipCache :: "(Request \<Rightarrow> bool) option"

definition default_options :: CacheMiddlewareOptions where
  "default_options = \<lparr>opt_ttl = None, keyGenerator = None, condition = None, vary = None, skipCache = None\<rparr>"

definition cacheMiddleware :: "CacheMiddlewareOptions \<Rightarrow> Request \<Rightarrow> (World \<Rightarrow> World) \<Rightarrow> World \<Rightarrow> World" where
  "cacheMiddleware options req next w =
     (let t = (case opt_ttl options of None \<Rightarrow> 300 | Some n \<Rightarrow> n);
          keyGen = (case keyGenerator options of None \<Rightarrow> defaultKeyGenerator | Some g \<Rightarrow> g);
          cond = (case condition options of None \<Rightarrow> defaultCondition | Some c \<Rightarrow> c);
          varyHeaders = (case vary options of None \<Rightarrow> [] | Some vs \<Rightarrow> vs);
          skip = (case skipCache options of None \<Rightarrow> (\<lambda>r. False) | Some f \<Rightarrow> f)
      in if http_method req \<noteq> ''GET'' \<or> skip req then next w
         else
           (let cacheKey = keyGen req
            in case cache_get cacheKey \<lparr>ttl = None, prefix = Some ''response'', compress = None\<rparr> w of
                 (Inl e, w1) \<Rightarrow> next (log_line ''error'' ''Cache middleware error'' w1)
               | (Inr cachedResponse, w1) \<Rightarrow>
                   if truthy cachedResponse then
                     (case replay cachedResponse t w1 of
                        (Inr u, w2) \<Rightarrow> w2
                      | (Inl e, w2) \<Rightarrow> next (log_line ''error'' ''Cache middleware error'' w2))
                   else
                     next ((res_setHeader ''X-Cache'' ''MISS'' w1)
                             \<lparr>json_hooks := CacheResponse req cacheKey t cond varyHeaders # json_hooks w1\<rparr>)))"

subsection \<open>The invalidation middleware\<close>

definition invalidateCache :: "string list \<Rightarrow> Request \<Rightarrow> (World \<Rightarrow> World) \<Rightarrow> World \<Rightarrow> World" where
  "invalidateCache patterns req next w = next (w\<lparr>json_hooks := InvalidatePatterns req patterns # json_hooks w\<rparr>)"

definition invalidateReportsCache :: "Request \<Rightarrow> (World \<Rightarrow> World) \<Rightarrow> World \<Rightarrow> World" where
  "invalidateReportsCache = invalidateCache [''response:reports:*'', ''response:reports:stats'']"

subsection \<open>The cache of the reports list\<close>










text \<open>Worlds and handlers used to run the middlewares on concrete requests.\<close>

definition example_world :: "bool \<Rightarrow> World" where
  "example_world up =
     \<lparr>cache = example_service up,
      res = \<lparr>statusCode = 200, headers = [], body = None\<rparr>,
      json_hooks = [], cache_calls = [], middleware_logs = []\<rparr>"

definition respond :: "int \<Rightarrow> (string \<times> string) list \<Rightarrow> json \<Rightarrow> World \<Rightarrow> World" where
  "respond code hs data w =
     res_json data (res_status code (foldl (\<lambda>w' h. res_setHeader (fst h) (snd h) w') w hs))"

definition example_request :: "string \<Rightarrow> string \<Rightarrow> (string \<times> string) list \<Rightarrow> Request" where
  "example_request m p q = \<lparr>http_method = m, path = p, query = q, user = Some ''u1''\<rparr>"

definition skipping_options :: CacheMiddlewareOptions where
  "skipping_options = default_options\<lparr>skipCache := Some (\<lambda>r. path r = ''/health'')\<rparr>"

definition counted :: "nat \<Rightarrow> nat \<Rightarrow> CacheService" where
  "counted h m =
     (example_service True)\<lparr>stats := \<lparr>hits = h, misses = m, sets = 0, deletes = 0, errors = 0\<rparr>\<rparr>"





text \<open>What may follow a value inside a JSON text (nothing, a comma or a closing bracket),
  and what the first character of a serialised value is never (white space or a closing
  bracket).\<close>

definition terminated :: "string \<Rightarrow> bool" where
  "terminated r = (r = [] \<or> hd r = CHR '','' \<or> hd r = CHR '']'' \<or> hd r = CHR ''}'')"



section \<open>Properties of the cache service\<close>

subsection \<open>Auxiliary facts\<close>

lemma call_eq: "call f s = (fst (f (redis s)), s\<lparr>redis := snd (f (redis s))\<rparr>)"
  by (simp add: call_def case_prod_beta)

lemma executeWithFallback_down:
  "\<not> isConnected s \<Longrightarrow> executeWithFallback operation fallback s = (Inr (fst (fallback s)), snd (fallback s))"
  by (simp add: executeWithFallback_def case_prod_beta)

lemma executeWithFallback_throws:
  "isConnected s \<Longrightarrow> fst (operation s) = Inl e \<Longrightarrow>
   executeWithFallback operation fallback s =
     (Inr (fst (fallback (logger ''warn'' ''Cache operation failed, using fallback''
                  (count_error (snd (operation s)))))),
      snd (fallback (logger ''warn'' ''Cache operation failed, using fallback''
                  (count_error (snd (operation s))))))"
  by (cases "operation s") (simp add: executeWithFallback_def case_prod_beta)

lemma errors_simps [simp]:
  "errors (stats (logger l m s)) = errors (stats s)"
  "errors (stats (count_error s)) = Suc (errors (stats s))"
  "errors (stats (count_miss s)) = errors (stats s)"
  by (simp_all add: logger_def count_error_def count_miss_def)

lemma operation_keeps_errors:
  "errors (stats (snd (get_operation key options s))) = errors (stats s)"
  "errors (stats (snd (set_operation key v options s))) = errors (stats s)"
  "errors (stats (snd (delete_operation key options s))) = errors (stats s)"
  "errors (stats (snd (exists_operation key options s))) = errors (stats s)"
  "errors (stats (snd (invalidatePattern_operation pattern s))) = errors (stats s)"
  by (simp_all add: get_operation_def set_operation_def delete_operation_def exists_operation_def
      invalidatePattern_operation_def Let_def case_prod_beta call_eq Date_now_def
      recordMetric_def count_hit_def count_miss_def count_sets_def count_delete_def logger_def
      split: sum.splits option.splits)

lemma example_simps:
  "isConnected (example_service up) = up"
  "isConnected failing_service"
  "errors (stats failing_service) = 0"
  "redis failing_service = example_client\<lparr>faults := (\<lambda>c. Some ''ECONNRESET'')\<rparr>"
  "reads failing_service = 0"
  by (simp_all add: example_service_def failing_service_def)

lemma failing_operations:
  "fst (get_operation key options failing_service) = Inl ''ECONNRESET''"
  "fst (set_operation key v options failing_service) = Inl ''ECONNRESET''"
  "fst (delete_operation key options failing_service) = Inl ''ECONNRESET''"
  "fst (exists_operation key options failing_service) = Inl ''ECONNRESET''"
  "fst (invalidatePattern_operation pattern failing_service) = Inl ''ECONNRESET''"
  by (simp_all add: get_operation_def set_operation_def delete_operation_def exists_operation_def
      invalidatePattern_operation_def Let_def case_prod_beta call_eq Date_now_def example_simps
      redis_get_def redis_setex_def redis_del_def redis_exists_def redis_keys_def)

lemma stats_le_refl: "stats_le a a"
  by (simp add: stats_le_def)

lemma stats_le_trans: "stats_le a b \<Longrightarrow> stats_le b c \<Longrightarrow> stats_le a c"
  by (auto simp: stats_le_def)

lemma stats_simps [simp]:
  "stats (logger l m s) = stats s"
  "stats (recordMetric n v u t s) = stats s"
  "stats (snd (Date_now s)) = stats s"
  "stats (snd (call f s)) = stats s"
  by (simp_all add: logger_def recordMetric_def Date_now_def call_def split: prod.splits)

lemma redis_simps [simp]:
  "redis (logger l m s) = redis s"
  "redis (recordMetric n v u t s) = redis s"
  "redis (snd (Date_now s)) = redis s"
  "redis (count_miss s) = redis s"
  "redis (count_hit s) = redis s"
  "redis (count_error s) = redis s"
  "redis (count_delete s) = redis s"
  "redis (count_sets k s) = redis s"
  by (simp_all add: logger_def recordMetric_def Date_now_def count_miss_def count_hit_def
      count_error_def count_delete_def count_sets_def)

lemma stats_le_count [simp]:
  "stats_le a (stats s) \<Longrightarrow> stats_le a (stats (count_hit s))"
  "stats_le a (stats s) \<Longrightarrow> stats_le a (stats (count_miss s))"
  "stats_le a (stats s) \<Longrightarrow> stats_le a (stats (count_sets n s))"
  "stats_le a (stats s) \<Longrightarrow> stats_le a (stats (count_delete s))"
  "stats_le a (stats s) \<Longrightarrow> stats_le a (stats (count_error s))"
  by (auto simp: stats_le_def count_hit_def count_miss_def count_sets_def count_delete_def count_error_def)

lemma executeWithFallback_mono:
  assumes "\<And>t. stats_le (stats t) (stats (snd (operation t)))"
    and "\<And>t. stats_le (stats t) (stats (snd (fallback t)))"
  shows "stats_le (stats s) (stats (snd (executeWithFallback operation fallback s)))"
proof (cases "isConnected s")
  case False
  then show ?thesis
    using assms(2) [of s] by (simp add: executeWithFallback_def case_prod_beta)
next
  case True
  show ?thesis
  proof (cases "operation s")
    case (Pair r s')
    have le: "stats_le (stats s) (stats s')"
      using assms(1) [of s] Pair by simp
    show ?thesis
    proof (cases r)
      case (Inr v)
      then show ?thesis using True Pair le by (simp add: executeWithFallback_def)
    next
      case (Inl e)
      let ?t = "logger ''warn'' ''Cache operation failed, using fallback'' (count_error s')"
      have "stats_le (stats s) (stats ?t)"
        using le by simp
      then have "stats_le (stats s) (stats (snd (fallback ?t)))"
        using assms(2) [of ?t] stats_le_trans by blast
      then show ?thesis
        using True Pair Inl by (simp add: executeWithFallback_def case_prod_beta)
    qed
  qed
qed

lemma stats_call [simp]: "stats (s\<lparr>redis := r\<rparr>) = stats s" "stats (s\<lparr>reads := n\<rparr>) = stats s"
  by simp_all

lemma get_operation_mono: "stats_le (stats s) (stats (snd (get_operation key options s)))"
  by (simp add: get_operation_def Let_def stats_le_refl case_prod_beta call_eq Date_now_def
      split: sum.splits option.splits)

lemma set_operation_mono: "stats_le (stats s) (stats (snd (set_operation key v options s)))"
  by (simp add: set_operation_def Let_def stats_le_refl case_prod_beta call_eq Date_now_def
      split: sum.splits option.splits)

lemma delete_operation_mono: "stats_le (stats s) (stats (snd (delete_operation key options s)))"
  by (simp add: delete_operation_def Let_def stats_le_refl case_prod_beta call_eq Date_now_def
      split: sum.splits option.splits)

lemma exists_operation_mono: "stats_le (stats s) (stats (snd (exists_operation key options s)))"
  by (simp add: exists_operation_def Let_def stats_le_refl case_prod_beta call_eq
      split: sum.splits option.splits)

lemma flush_operation_mono: "stats_le (stats s) (stats (snd (flush_operation pattern s)))"
  by (simp add: flush_operation_def flush_matching_def flush_everything_def Let_def stats_le_refl
      case_prod_beta call_eq split: sum.splits option.splits)

lemma read_results_mono: "stats_le a (stats s) \<Longrightarrow> stats_le a (stats (snd (read_results rs s)))"
  by (induction rs s rule: read_results.induct) (simp_all add: case_prod_beta)

lemma miss_all_mono: "stats_le a (stats s) \<Longrightarrow> stats_le a (stats (snd (miss_all ks s)))"
  by (induction ks arbitrary: s) (simp_all add: case_prod_beta)

lemma getMultiple_operation_mono:
  "stats_le (stats s) (stats (snd (getMultiple_operation keys options s)))"
  by (simp add: getMultiple_operation_def Let_def stats_le_refl case_prod_beta call_eq
      read_results_mono split: sum.splits)

lemma setMultiple_operation_mono:
  "stats_le (stats s) (stats (snd (setMultiple_operation es options s)))"
  by (simp add: setMultiple_operation_def Let_def stats_le_refl case_prod_beta call_eq
      split: sum.splits)

lemma invalidatePattern_operation_mono:
  "stats_le (stats s) (stats (snd (invalidatePattern_operation pattern s)))"
  by (simp add: invalidatePattern_operation_def Let_def stats_le_refl case_prod_beta call_eq
      split: sum.splits)

lemma healthCheck_mono: "stats_le (stats s) (stats (snd (healthCheck s)))"
  by (simp add: healthCheck_def Let_def stats_le_refl case_prod_beta call_eq Date_now_def
      split: sum.splits)


subsection \<open>Failing open\<close>

text \<open>
  Claim C1. While the connection flag is down, \<open>get\<close>, \<open>set\<close>, \<open>delete\<close>, \<open>exists\<close> and
  \<open>invalidatePattern\<close> return their safe defaults (\<open>null\<close>, \<open>false\<close>, \<open>false\<close>, \<open>false\<close>,
  \<open>0\<close>) as values, not as exceptions, and leave the client untouched: the state is the
  one before the call, except that \<open>get\<close> counts a miss. While the flag is up and the
  operation throws, the same default is returned and the \<open>errors\<close> counter is one higher
  after the call.
\<close>

theorem fail_open:
  "(\<not> isConnected s \<longrightarrow>
      get key options s = (Inr JNull, count_miss s) \<and>
      set_cache key v options s = (Inr False, s) \<and>
      delete key options s = (Inr False, s) \<and>
      exists_cache key options s = (Inr False, s) \<and>
      invalidatePattern pattern s = (Inr 0, s) \<and>
      redis (count_miss s) = redis s) \<and>
   (isConnected s \<longrightarrow>
      (fst (get_operation key options s) = Inl e \<longrightarrow>
         fst (get key options s) = Inr JNull \<and>
         errors (stats (snd (get key options s))) = errors (stats s) + 1) \<and>
      (fst (set_operation key v options s) = Inl e \<longrightarrow>
         fst (set_cache key v options s) = Inr False \<and>
         errors (stats (snd (set_cache key v options s))) = errors (stats s) + 1) \<and>
      (fst (delete_operation key options s) = Inl e \<longrightarrow>
         fst (delete key options s) = Inr False \<and>
         errors (stats (snd (delete key options s))) = errors (stats s) + 1) \<and>
      (fst (exists_operation key options s) = Inl e \<longrightarrow>
         fst (exists_cache key options s) = Inr False \<and>
         errors (stats (snd (exists_cache key options s))) = errors (stats s) + 1) \<and>
      (fst (invalidatePattern_operation pattern s) = Inl e \<longrightarrow>
         fst (invalidatePattern pattern s) = Inr 0 \<and>
         errors (stats (snd (invalidatePattern pattern s))) = errors (stats s) + 1))"
proof (intro conjI impI)
  assume "\<not> isConnected s"
  then show "get key options s = (Inr JNull, count_miss s)"
    and "set_cache key v options s = (Inr False, s)"
    and "delete key options s = (Inr False, s)"
    and "exists_cache key options s = (Inr False, s)"
    and "invalidatePattern pattern s = (Inr 0, s)"
    by (simp_all add: get_def set_cache_def delete_def exists_cache_def invalidatePattern_def
        executeWithFallback_down)
next
  show "redis (count_miss s) = redis s"
    by (simp add: count_miss_def)
next
  assume up: "isConnected s" and t: "fst (get_operation key options s) = Inl e"
  show "fst (get key options s) = Inr JNull"
    and "errors (stats (snd (get key options s))) = errors (stats s) + 1"
    by (simp_all add: get_def executeWithFallback_throws [of s "get_operation key options" e, OF up t]
        operation_keeps_errors)
next
  assume up: "isConnected s" and t: "fst (set_operation key v options s) = Inl e"
  show "fst (set_cache key v options s) = Inr False"
    and "errors (stats (snd (set_cache key v options s))) = errors (stats s) + 1"
    by (simp_all add: set_cache_def executeWithFallback_throws [of s "set_operation key v options" e, OF up t]
        operation_keeps_errors)
next
  assume up: "isConnected s" and t: "fst (delete_operation key options s) = Inl e"
  show "fst (delete key options s) = Inr False"
    and "errors (stats (snd (delete key options s))) = errors (stats s) + 1"
    by (simp_all add: delete_def executeWithFallback_throws [of s "delete_operation key options" e, OF up t]
        operation_keeps_errors)
next
  assume up: "isConnected s" and t: "fst (exists_operation key options s) = Inl e"
  show "fst (exists_cache key options s) = Inr False"
    and "errors (stats (snd (exists_cache key options s))) = errors (stats s) + 1"
    by (simp_all add: exists_cache_def executeWithFallback_throws [of s "exists_operation key options" e, OF up t]
        operation_keeps_errors)
next
  assume up: "isConnected s" and t: "fst (invalidatePattern_operation pattern s) = Inl e"
  show "fst (invalidatePattern pattern s) = Inr 0"
    and "errors (stats (snd (invalidatePattern pattern s))) = errors (stats s) + 1"
    by (simp_all add: invalidatePattern_def executeWithFallback_throws [of s "invalidatePattern_operation pattern" e, OF up t]
        operation_keeps_errors)
qed

theorem fail_open_witness:
  "\<not> isConnected (example_service False) \<and>
   get ''k'' no_options (example_service False) = (Inr JNull, count_miss (example_service False)) \<and>
   set_cache ''k'' (JNum 1) no_options (example_service False) = (Inr False, example_service False) \<and>
   delete ''k'' no_options (example_service False) = (Inr False, example_service False) \<and>
   exists_cache ''k'' no_options (example_service False) = (Inr False, example_service False) \<and>
   invalidatePattern ''response:*'' (example_service False) = (Inr 0, example_service False) \<and>
   isConnected failing_service \<and>
   fst (get_operation ''k'' no_options failing_service) = Inl ''ECONNRESET'' \<and>
   fst (get ''k'' no_options failing_service) = Inr JNull \<and>
   errors (stats (snd (get ''k'' no_options failing_service))) = 1 \<and>
   fst (set_operation ''k'' (JNum 1) no_options failing_service) = Inl ''ECONNRESET'' \<and>
   fst (set_cache ''k'' (JNum 1) no_options failing_service) = Inr False \<and>
   errors (stats (snd (set_cache ''k'' (JNum 1) no_options failing_service))) = 1 \<and>
   fst (delete_operation ''k'' no_options failing_service) = Inl ''ECONNRESET'' \<and>
   fst (delete ''k'' no_options failing_service) = Inr False \<and>
   errors (stats (snd (delete ''k'' no_options failing_service))) = 1 \<and>
   fst (exists_operation ''k'' no_options failing_service) = Inl ''ECONNRESET'' \<and>
   fst (exists_cache ''k'' no_options failing_service) = Inr False \<and>
   errors (stats (snd (exists_cache ''k'' no_options failing_service))) = 1 \<and>
   fst (invalidatePattern_operation ''response:*'' failing_service) = Inl ''ECONNRESET'' \<and>
   fst (invalidatePattern ''response:*'' failing_service) = Inr 0 \<and>
   errors (stats (snd (invalidatePattern ''response:*'' failing_service))) = 1"
  using fail_open [where s = "example_service False" and key = "''k''" and options = no_options
        and v = "JNum 1" and pattern = "''response:*''"]
    fail_open [where s = failing_service and key = "''k''" and options = no_options
        and v = "JNum 1" and pattern = "''response:*''" and e = "''ECONNRESET''"]
  by (simp add: example_simps failing_operations)




subsection \<open>Health check\<close>

text \<open>
  Claim C8. The health check reads the clock, pings the store and reads the clock again.
  When the ping succeeds the status is \<open>healthy\<close> if the measured latency is below 100 ms
  and \<open>degraded\<close> if it is 100 ms or more; when the ping throws the status is \<open>unhealthy\<close>
  and the report carries the message of the error.
\<close>

theorem healthCheck_classification:
  "(faults (redis s) PING = None \<and> clock s (Suc (reads s)) - clock s (reads s) < 100 \<longrightarrow>
      status (fst (healthCheck s)) = healthy \<and>
      latency (fst (healthCheck s)) = Some (clock s (Suc (reads s)) - clock s (reads s))) \<and>
   (faults (redis s) PING = None \<and> 100 \<le> clock s (Suc (reads s)) - clock s (reads s) \<longrightarrow>
      status (fst (healthCheck s)) = degraded \<and>
      latency (fst (healthCheck s)) = Some (clock s (Suc (reads s)) - clock s (reads s))) \<and>
   (faults (redis s) PING = Some message \<longrightarrow>
      status (fst (healthCheck s)) = unhealthy \<and> error (fst (healthCheck s)) = Some message)"
  by (simp add: healthCheck_def Let_def case_prod_beta call_eq Date_now_def redis_ping_def)

theorem healthCheck_classification_witness:
  "faults (redis (example_service True)) PING = None \<and>
   clock (example_service True) (Suc (reads (example_service True)))
     - clock (example_service True) (reads (example_service True)) < 100 \<and>
   status (fst (healthCheck (example_service True))) = healthy \<and>
   latency (fst (healthCheck (example_service True))) = Some 5 \<and>
   faults (redis slow_service) PING = None \<and>
   100 \<le> clock slow_service (Suc (reads slow_service)) - clock slow_service (reads slow_service) \<and>
   status (fst (healthCheck slow_service)) = degraded \<and>
   latency (fst (healthCheck slow_service)) = Some 150 \<and>
   faults (redis failing_service) PING = Some ''ECONNRESET'' \<and>
   status (fst (healthCheck failing_service)) = unhealthy \<and>
   error (fst (healthCheck failing_service)) = Some ''ECONNRESET''"
  using healthCheck_classification [of "example_service True" "''x''"]
    healthCheck_classification [of slow_service "''x''"]
    healthCheck_classification [of failing_service "''ECONNRESET''"]
  by (simp add: example_service_def example_client_def slow_service_def failing_service_def)


subsection \<open>Counters\<close>

text \<open>
  Claim C10. None of \<open>get\<close>, \<open>set\<close>, \<open>delete\<close>, \<open>exists\<close>, \<open>getMultiple\<close>, \<open>setMultiple\<close>,
  \<open>invalidatePattern\<close>, \<open>flush\<close> and \<open>healthCheck\<close> lowers any of the five counters, and
  \<open>resetStats\<close> sets all five to zero.
\<close>

theorem counters_never_decrease:
  "stats_le (stats s) (stats (snd (get key options s))) \<and>
   stats_le (stats s) (stats (snd (set_cache key v options s))) \<and>
   stats_le (stats s) (stats (snd (delete key options s))) \<and>
   stats_le (stats s) (stats (snd (exists_cache key options s))) \<and>
   stats_le (stats s) (stats (snd (getMultiple keys options s))) \<and>
   stats_le (stats s) (stats (snd (setMultiple es options s))) \<and>
   stats_le (stats s) (stats (snd (invalidatePattern pattern s))) \<and>
   stats_le (stats s) (stats (snd (flush fp s))) \<and>
   stats_le (stats s) (stats (snd (healthCheck s))) \<and>
   stats (resetStats s) = \<lparr>hits = 0, misses = 0, sets = 0, deletes = 0, errors = 0\<rparr>"
proof -
  have g: "stats_le (stats s) (stats (snd (get key options s)))"
    unfolding get_def
    by (rule executeWithFallback_mono) (simp_all add: get_operation_mono stats_le_refl)
  have st: "stats_le (stats s) (stats (snd (set_cache key v options s)))"
    unfolding set_cache_def
    by (rule executeWithFallback_mono) (simp_all add: set_operation_mono stats_le_refl)
  have d: "stats_le (stats s) (stats (snd (delete key options s)))"
    unfolding delete_def
    by (rule executeWithFallback_mono) (simp_all add: delete_operation_mono stats_le_refl)
  have e: "stats_le (stats s) (stats (snd (exists_cache key options s)))"
    unfolding exists_cache_def
    by (rule executeWithFallback_mono) (simp_all add: exists_operation_mono stats_le_refl)
  have gm: "stats_le (stats s) (stats (snd (getMultiple keys options s)))"
    unfolding getMultiple_def
    by (rule executeWithFallback_mono)
      (simp_all add: getMultiple_operation_mono miss_all_mono stats_le_refl)
  have sm: "stats_le (stats s) (stats (snd (setMultiple es options s)))"
    unfolding setMultiple_def
    by (rule executeWithFallback_mono) (simp_all add: setMultiple_operation_mono stats_le_refl)
  have ip: "stats_le (stats s) (stats (snd (invalidatePattern pattern s)))"
    unfolding invalidatePattern_def
    by (rule executeWithFallback_mono) (simp_all add: invalidatePattern_operation_mono stats_le_refl)
  have f: "stats_le (stats s) (stats (snd (flush fp s)))"
    unfolding flush_def
    by (rule executeWithFallback_mono) (simp_all add: flush_operation_mono stats_le_refl)
  have r: "stats (resetStats s) = \<lparr>hits = 0, misses = 0, sets = 0, deletes = 0, errors = 0\<rparr>"
    by (simp add: resetStats_def)
  show ?thesis
    using g st d e gm sm ip f r healthCheck_mono by blast
qed


section \<open>Properties of the middlewares\<close>

lemma invalidate_one_calls:
  "cache_calls (invalidate_one w p) = cache_calls w @ [Called_invalidatePattern p]"
  by (simp add: invalidate_one_def cache_invalidatePattern_def log_line_def case_prod_beta
      split: sum.splits)

lemma invalidate_all_calls:
  "cache_calls (foldl invalidate_one w ps) = cache_calls w @ map Called_invalidatePattern ps"
  by (induction ps arbitrary: w) (simp_all add: invalidate_one_calls)

lemma run_hook_CacheResponse_idle:
  "\<not> (cond req (res w) \<and> 200 \<le> statusCode (res w) \<and> statusCode (res w) < 300) \<Longrightarrow>
   run_hook (CacheResponse req key t cond vs) data w = w"
  by auto


subsection \<open>Bypass\<close>

text \<open>
  Claim C9. For a request whose method is not GET, or for which the configured skip
  predicate holds, the response-cache middleware does nothing but call the downstream
  handler: the world after the middleware is the world the handler produces from the
  world before it, so the middleware itself reads and writes no cache entry, changes no
  counter and sets no header.
\<close>

theorem cacheMiddleware_bypass:
  "http_method req \<noteq> ''GET'' \<or> (case skipCache options of None \<Rightarrow> False | Some f \<Rightarrow> f req) \<Longrightarrow>
   cacheMiddleware options req next w = next w"
  by (auto simp: cacheMiddleware_def Let_def split: option.splits)

theorem cacheMiddleware_bypass_witness:
  "http_method (example_request ''POST'' ''/api/v1/reports'' []) \<noteq> ''GET'' \<and>
   cacheMiddleware default_options (example_request ''POST'' ''/api/v1/reports'' [])
       (respond 201 [] (JObj [(''success'', JBool True)])) (example_world True)
     = respond 201 [] (JObj [(''success'', JBool True)]) (example_world True) \<and>
   (case skipCache skipping_options of None \<Rightarrow> False
    | Some f \<Rightarrow> f (example_request ''GET'' ''/health'' [])) \<and>
   cacheMiddleware skipping_options (example_request ''GET'' ''/health'' [])
       (respond 200 [] (JObj [(''success'', JBool True)])) (example_world True)
     = respond 200 [] (JObj [(''success'', JBool True)]) (example_world True)"
  using cacheMiddleware_bypass [of "example_request ''POST'' ''/api/v1/reports'' []" default_options
      "respond 201 [] (JObj [(''success'', JBool True)])" "example_world True"]
    cacheMiddleware_bypass [of "example_request ''GET'' ''/health'' []" skipping_options
      "respond 200 [] (JObj [(''success'', JBool True)])" "example_world True"]
  by (simp add: example_request_def skipping_options_def default_options_def)

subsection \<open>Invalidation\<close>

text \<open>
  Claim C6. The invalidation middleware installs its hook and calls the downstream handler.
  When the handler sends its JSON response with a status code from 200 up to 299, the
  hook calls \<open>invalidatePattern\<close> once for each declared pattern, in the order declared;
  with any other status code the hook does nothing.
\<close>

theorem invalidation_after_success:
  "invalidateCache patterns req next w =
     next (w\<lparr>json_hooks := InvalidatePatterns req patterns # json_hooks w\<rparr>) \<and>
   (200 \<le> statusCode (res v) \<and> statusCode (res v) < 300 \<longrightarrow>
      cache_calls (run_hook (InvalidatePatterns req patterns) data v) =
        cache_calls v @ map Called_invalidatePattern patterns) \<and>
   (\<not> (200 \<le> statusCode (res v) \<and> statusCode (res v) < 300) \<longrightarrow>
      run_hook (InvalidatePatterns req patterns) data v = v) \<and>
   (json_hooks v = [InvalidatePatterns req patterns] \<longrightarrow>
      cache_calls (res_json data v) =
        (if 200 \<le> statusCode (res v) \<and> statusCode (res v) < 300
         then cache_calls v @ map Called_invalidatePattern patterns else cache_calls v))"
  by (simp add: invalidateCache_def invalidate_all_calls res_json_def original_json_def)

theorem invalidation_after_success_witness:
  "statusCode (res (res_status 201 ((example_world True)\<lparr>json_hooks :=
      [InvalidatePatterns (example_request ''POST'' ''/api/v1/reports'' [])
         [''response:reports:*'', ''response:reports:stats'']]\<rparr>))) = 201 \<and>
   cache_calls (invalidateReportsCache (example_request ''POST'' ''/api/v1/reports'' [])
      (respond 201 [] (JObj [(''success'', JBool True)])) (example_world True)) =
     [Called_invalidatePattern ''response:reports:*'', Called_invalidatePattern ''response:reports:stats''] \<and>
   statusCode (res (res_status 400 ((example_world True)\<lparr>json_hooks :=
      [InvalidatePatterns (example_request ''POST'' ''/api/v1/reports'' [])
         [''response:reports:*'', ''response:reports:stats'']]\<rparr>))) = 400 \<and>
   cache_calls (invalidateReportsCache (example_request ''POST'' ''/api/v1/reports'' [])
      (respond 400 [] (JObj [(''success'', JBool False)])) (example_world True)) = []"
proof -
  let ?req = "example_request ''POST'' ''/api/v1/reports'' []"
  let ?ps = "[''response:reports:*'', ''response:reports:stats'']"
  let ?v = "\<lambda>code. res_status code ((example_world True)\<lparr>json_hooks := [InvalidatePatterns ?req ?ps]\<rparr>)"
  have hooks: "json_hooks (?v code) = [InvalidatePatterns ?req ?ps]" for code
    by (simp add: res_status_def)
  have st: "statusCode (res (?v code)) = code" for code
    by (simp add: res_status_def)
  have calls: "cache_calls (?v code) = []" for code
    by (simp add: res_status_def example_world_def)
  have unfold: "invalidateReportsCache ?req (respond code [] d) (example_world True) = res_json d (?v code)"
    for code d
    using invalidation_after_success [of ?ps ?req "respond code [] d" "example_world True"]
    by (simp add: invalidateReportsCache_def respond_def example_world_def)
  show ?thesis
    using invalidation_after_success [of ?ps ?req _ _ "?v 201" "JObj [(''success'', JBool True)]"]
      invalidation_after_success [of ?ps ?req _ _ "?v 400" "JObj [(''success'', JBool False)]"]
    by (simp only: unfold hooks st calls) simp
qed

subsection \<open>What the response cache stores\<close>





section \<open>The hit rate\<close>

text \<open>
  The rounding agrees with the doubles of JavaScript: one tenth is the double
  0.1000000000000000055511151231257827, ten hits and five misses give the 66.67 the unit
  test of \<^verbatim>\<open>getStats\<close> expects, and 23/160 times 100 times 100 is
  1437.4999999999998.
\<close>

lemma doubles_as_expected:
  "fl (1 / 10) = 3602879701896397 / 36028797018963968 \<and>
   hitRate (getStats (counted 10 5)) = fl (6667 / 100) \<and>
   fl (fl (fl (23 / 160) * 100) * 100) = 6322191859711999 / 4398046511104"
  by code_simp


section \<open>The default cache key\<close>

subsection \<open>The query string determines the query\<close>






















subsection \<open>Keys and requests\<close>




section \<open>Round trip through the cache\<close>

subsection \<open>Numbers\<close>




















subsection \<open>Strings\<close>







lemma quote_shape: "quote s = CHR 0x22 # tl (quote s)"
  by (simp add: quote_def)


subsection \<open>Values\<close>

















lemma terminated_simps [simp]:
  "terminated []" "terminated (CHR '','' # r)" "terminated (CHR '']'' # r)" "terminated (CHR ''}'' # r)"
  by (simp_all add: terminated_def)







subsection \<open>A write followed by a read\<close>




end
